theory Spec2Isabelle
  imports Complex_Main
begin

section \<open>The tacho motor module of uev3dev (src/src/uev3dev/motors.py)\<close>

text \<open>
  The module drives one LEGO EV3 motor through attribute files of the kernel. Its
  functions compute a few numbers and strings and write them to those files, so the
  embedding is a state-passing one: every function takes the record \<open>io\<close> (what has
  happened on the attribute files so far) and returns its result with the new record.
  An exception of the source is the left injection of the result.

  Python numbers that the source converts with \<open>int(...)\<close> (speed, rotations, time)
  are rationals here: the arithmetic is exact, the rounding of a float is not part of
  the model. \<open>int\<close> truncates toward zero.
\<close>

subsection \<open>Values, events and errors\<close>

datatype val = StrVal string | IntVal int

text \<open>
  What the module does on the attribute store, in the order it does it. The store
  (module uev3dev.sysfs) is not part of the sources: a call of it is recorded as an event,
  and what it returns is taken from the parameters \<open>sysfs\<close> and \<open>state_feed\<close> below.
\<close>

datatype event =
    FindNode string string string
  | OpenAttr string string string
  | ReadAttr string
  | WriteAttr string val
  | Sleep rat

datatype error = MotorNotFoundError string | ValueError string

type_synonym 'a result = "error + 'a"

record io =
  trace :: "event list"
  state_feed :: "string list"

text \<open>
  \<open>trace\<close> is the list of events so far, the latest last. \<open>state_feed\<close> holds what
  the next reads of the attribute \<open>state\<close> return, one string for each read.
\<close>

record sysfs =
  find_node :: "string \<Rightarrow> string \<Rightarrow> string \<Rightarrow> string option"
  read_attr :: "string \<Rightarrow> string \<Rightarrow> string"
  read_int_attr :: "string \<Rightarrow> string \<Rightarrow> int"

text \<open>
  The three entry points of uev3dev.sysfs that the constructor uses, as parameters:
  \<open>find_node subsystem port driver\<close> gives the path of the device node or nothing,
  \<open>read_attr node name\<close> is \<open>Attribute(node, name, 'r').read()\<close> and
  \<open>read_int_attr node name\<close> is \<open>IntAttribute(node, name, 'r').read()\<close>.
\<close>

record motor =
  commands :: "string list"
  count_per_rot :: int
  driver_name :: string
  max_speed :: int
  stop_actions :: "string list"
  port :: string

subsection \<open>Python primitives\<close>

definition py_int :: "rat \<Rightarrow> int" where
  "py_int q = (if q < 0 then - \<lfloor>- q\<rfloor> else \<lfloor>q\<rfloor>)"

fun py_split :: "string \<Rightarrow> string list" where
  "py_split [] = [[]]"
| "py_split (c # cs) =
     (if c = CHR '' '' then [] # py_split cs
      else (case py_split cs of [] \<Rightarrow> [[c]] | w # ws \<Rightarrow> (c # w) # ws))"

definition truthy :: "string option \<Rightarrow> bool" where
  "truthy node = (case node of None \<Rightarrow> False | Some p \<Rightarrow> p \<noteq> [])"

definition StopAction_COAST :: string where "StopAction_COAST = ''coast''"
definition StopAction_BRAKE :: string where "StopAction_BRAKE = ''brake''"
definition StopAction_HOLD :: string where "StopAction_HOLD = ''hold''"

definition EV3_LARGE :: string where "EV3_LARGE = ''lego-ev3-l-motor''"
definition EV3_MEDIUM :: string where "EV3_MEDIUM = ''lego-ev3-m-motor''"

subsection \<open>Writing, and running one call after another\<close>

definition record_events :: "event list \<Rightarrow> io \<Rightarrow> io" where
  "record_events es s = s\<lparr>trace := trace s @ es\<rparr>"

definition attr_write :: "string \<Rightarrow> val \<Rightarrow> io \<Rightarrow> unit result \<times> io" where
  "attr_write name v s = (Inr (), record_events [WriteAttr name v] s)"

text \<open>
  A write is an event, and it succeeds: a write that the attribute store refuses is an
  exception of uev3dev.sysfs, which this module neither raises nor catches.
  \<open>and_then\<close> runs the next statement unless the one before it raised.
\<close>

definition and_then :: "unit result \<times> io \<Rightarrow> (io \<Rightarrow> 'a result \<times> io) \<Rightarrow> 'a result \<times> io" where
  "and_then r f = (case r of (Inl e, s) \<Rightarrow> (Inl e, s) | (Inr u, s) \<Rightarrow> f s)"

subsection \<open>The setters\<close>

definition set_duty_cycle_sp :: "motor \<Rightarrow> int \<Rightarrow> io \<Rightarrow> unit result \<times> io" where
  "set_duty_cycle_sp m duty_cycle s =
     (if duty_cycle < - 100 \<or> duty_cycle > 100
      then (Inl (ValueError ''duty cycle is out of range''), s)
      else attr_write ''duty_cycle_sp'' (IntVal duty_cycle) s)"

definition native_speed :: "motor \<Rightarrow> rat \<Rightarrow> int" where
  "native_speed m speed = py_int (speed * of_int (count_per_rot m) / 360)"

definition set_speed_sp :: "motor \<Rightarrow> rat \<Rightarrow> io \<Rightarrow> unit result \<times> io" where
  "set_speed_sp m speed s =
     (let speed' = native_speed m speed in
      if speed' < - max_speed m \<or> speed' > max_speed m
      then (Inl (ValueError ''speed is out of range''), s)
      else attr_write ''speed_sp'' (IntVal speed') s)"

definition set_position_sp :: "motor \<Rightarrow> rat \<Rightarrow> io \<Rightarrow> unit result \<times> io" where
  "set_position_sp m rotations s =
     (let counts = py_int (of_int (count_per_rot m) * rotations) in
      attr_write ''position_sp'' (IntVal counts) s)"

definition set_time_sp :: "motor \<Rightarrow> int \<Rightarrow> io \<Rightarrow> unit result \<times> io" where
  "set_time_sp m time s =
     (if time < 0
      then (Inl (ValueError ''time is out of range''), s)
      else attr_write ''time_sp'' (IntVal time) s)"

definition set_stop_action :: "motor \<Rightarrow> string \<Rightarrow> io \<Rightarrow> unit result \<times> io" where
  "set_stop_action m action s =
     (if action \<notin> set (stop_actions m)
      then (Inl (ValueError ''Invalid stop action''), s)
      else attr_write ''stop_action'' (StrVal action) s)"

subsection \<open>The operations\<close>

definition run :: "motor \<Rightarrow> rat \<Rightarrow> io \<Rightarrow> unit result \<times> io" where
  "run m speed s =
     and_then (set_speed_sp m speed s) (attr_write ''command'' (StrVal ''run-forever''))"

text \<open>
  The loop \<open>while wait\<close> of \<open>run_for_rotations\<close>. Each turn reads \<open>state\<close>, which
  takes the next string of \<open>state_feed\<close>. The loop of the source runs for as long as the
  device says \<open>running\<close> without \<open>holding\<close>; here it gives \<open>None\<close> when the feed
  is used up before that, with the events up to there.
\<close>

fun wait_while_running :: "bool \<Rightarrow> event list \<Rightarrow> string list \<Rightarrow> unit result option \<times> io" where
  "wait_while_running False tr fd = (Some (Inr ()), \<lparr>trace = tr, state_feed = fd\<rparr>)"
| "wait_while_running True tr [] = (None, \<lparr>trace = tr, state_feed = []\<rparr>)"
| "wait_while_running True tr (r # fd) =
     (let state = py_split r in
      wait_while_running (\<not> (''running'' \<notin> set state \<or> ''holding'' \<in> set state))
        (tr @ [ReadAttr ''state'']) fd)"

definition run_for_rotations ::
    "motor \<Rightarrow> rat \<Rightarrow> rat \<Rightarrow> string \<Rightarrow> bool \<Rightarrow> io \<Rightarrow> unit result option \<times> io" where
  "run_for_rotations m speed rotations stop_action wait s =
     (let rotations' = (if speed < 0 then rotations * (- 1) else rotations) in
      case and_then (set_speed_sp m speed s) (\<lambda>s.
           and_then (set_stop_action m stop_action s) (\<lambda>s.
           and_then (set_position_sp m rotations' s)
             (attr_write ''command'' (StrVal ''run-to-rel-pos''))))
      of (Inl e, s') \<Rightarrow> (Some (Inl e), s')
       | (Inr u, s') \<Rightarrow> wait_while_running wait (trace s') (state_feed s'))"

definition run_for_time ::
    "motor \<Rightarrow> rat \<Rightarrow> rat \<Rightarrow> string \<Rightarrow> bool \<Rightarrow> io \<Rightarrow> unit result \<times> io" where
  "run_for_time m speed time stop_action wait s =
     and_then (set_speed_sp m speed s) (\<lambda>s.
     and_then (set_time_sp m (py_int (time * 1000)) s) (\<lambda>s.
     and_then (set_stop_action m stop_action s) (\<lambda>s.
       if wait
       then and_then (attr_write ''command'' (StrVal ''run-forever'') s) (\<lambda>s.
            and_then (Inr (), record_events [Sleep time] s)
              (attr_write ''command'' (StrVal ''stop'')))
       else attr_write ''command'' (StrVal ''run-timed'') s)))"

text \<open>
  \<open>utime.sleep(time)\<close> is the event \<open>Sleep time\<close>, and the model takes it to
  return. A negative \<open>time\<close> can reach it only above a thousandth of a second below
  zero, where \<open>int(time * 1000)\<close> is 0; what the library does with it is not part of
  the model, and the property of the sleep below takes a time that is not negative.
  The default arguments of the source (\<open>stop_action=StopAction.HOLD\<close>,
  \<open>wait=True\<close>) are for the caller to pass.
\<close>

definition run_unregulated :: "motor \<Rightarrow> int \<Rightarrow> io \<Rightarrow> unit result \<times> io" where
  "run_unregulated m duty_cycle s =
     and_then (set_duty_cycle_sp m duty_cycle s) (attr_write ''command'' (StrVal ''run-direct''))"

definition stop :: "motor \<Rightarrow> string \<Rightarrow> io \<Rightarrow> unit result \<times> io" where
  "stop m action s =
     and_then (set_stop_action m action s) (attr_write ''command'' (StrVal ''stop''))"

subsection \<open>The constructor\<close>

definition init_events :: "string \<Rightarrow> event list" where
  "init_events node =
     [OpenAttr node ''command'' ''w'',
      OpenAttr node ''commands'' ''r'', ReadAttr ''commands'',
      OpenAttr node ''count_per_rot'' ''r'', ReadAttr ''count_per_rot'',
      OpenAttr node ''driver_name'' ''r'', ReadAttr ''driver_name'',
      OpenAttr node ''duty_cycle'' ''r'',
      OpenAttr node ''duty_cycle_sp'' ''r+'',
      OpenAttr node ''max_speed'' ''r'', ReadAttr ''max_speed'',
      OpenAttr node ''position'' ''r'',
      OpenAttr node ''position_sp'' ''r+'',
      OpenAttr node ''ramp_up_sp'' ''r+'',
      OpenAttr node ''ramp_down_sp'' ''r+'',
      OpenAttr node ''speed_sp'' ''r+'',
      OpenAttr node ''state'' ''r'',
      OpenAttr node ''stop_action'' ''r+'',
      OpenAttr node ''stop_actions'' ''r'', ReadAttr ''stop_actions'',
      OpenAttr node ''time_sp'' ''r+'',
      WriteAttr ''command'' (StrVal ''reset'')]"

text \<open>
  \<open>init_events\<close> lists lines 36 to 53 of the source in their order: an
  \<open>OpenAttr\<close> for each \<open>sysfs.Attribute(node, name, mode)\<close> or
  \<open>sysfs.IntAttribute(node, name, mode)\<close>, a \<open>ReadAttr\<close> where the source calls
  \<open>.read()\<close> on it at once, and the write of \<open>reset\<close> to \<open>command\<close> of line 53.
\<close>

definition TachoMotor_init ::
    "string \<Rightarrow> sysfs \<Rightarrow> string \<Rightarrow> string \<Rightarrow> io \<Rightarrow> motor result \<times> io" where
  "TachoMotor_init cls fs port0 driver s =
     (let port' = (if length port0 = 1 then ''ev3-ports:out'' @ port0 else port0);
          node = find_node fs ''tacho-motor'' port' driver;
          s1 = record_events [FindNode ''tacho-motor'' port' driver] s
      in if \<not> truthy node
         then (Inl (MotorNotFoundError (cls @ '' not found on port '' @ port')), s1)
         else (case node of
                 None \<Rightarrow> (Inl (MotorNotFoundError (cls @ '' not found on port '' @ port')), s1)
               | Some n \<Rightarrow>
                   (Inr \<lparr>commands = py_split (read_attr fs n ''commands''),
                         count_per_rot = read_int_attr fs n ''count_per_rot'',
                         driver_name = read_attr fs n ''driver_name'',
                         max_speed = read_int_attr fs n ''max_speed'',
                         stop_actions = py_split (read_attr fs n ''stop_actions''),
                         port = port'\<rparr>,
                    record_events (init_events n) s1)))"

text \<open>
  \<open>cls\<close> is \<open>self.__class__.__name__\<close>, the name of the class that is being
  constructed. \<open>if not node\<close> holds for \<open>None\<close> and for the empty string, which is
  what \<open>truthy\<close> says; the branch \<open>None\<close> of the case is the same raise, never
  reached after the test.
\<close>

definition LargeMotor_init :: "sysfs \<Rightarrow> string \<Rightarrow> io \<Rightarrow> motor result \<times> io" where
  "LargeMotor_init fs port0 s = TachoMotor_init ''LargeMotor'' fs port0 EV3_LARGE s"

definition MediumMotor_init :: "sysfs \<Rightarrow> string \<Rightarrow> io \<Rightarrow> motor result \<times> io" where
  "MediumMotor_init fs port0 s = TachoMotor_init ''MediumMotor'' fs port0 EV3_MEDIUM s"

subsection \<open>Reading a trace\<close>

text \<open>The values written to one attribute, in the order of the writes.\<close>

fun writes_to :: "string \<Rightarrow> event list \<Rightarrow> val list" where
  "writes_to a [] = []"
| "writes_to a (WriteAttr b v # es) = (if a = b then v # writes_to a es else writes_to a es)"
| "writes_to a (e # es) = writes_to a es"

text \<open>The events that a call added: those of \<open>s'\<close> after the ones of \<open>s\<close>.\<close>

definition new_events :: "io \<Rightarrow> io \<Rightarrow> event list" where
  "new_events s s' = drop (length (trace s)) (trace s')"

text \<open>\<open>occurs_before a b es\<close>: the first \<open>a\<close> of \<open>es\<close> has a \<open>b\<close> after it.\<close>

fun occurs_before :: "event \<Rightarrow> event \<Rightarrow> event list \<Rightarrow> bool" where
  "occurs_before a b [] = False"
| "occurs_before a b (e # es) = (if e = a then b \<in> set es else occurs_before a b es)"

fun nonneg_val :: "val \<Rightarrow> bool" where
  "nonneg_val (IntVal n) = (0 \<le> n)"
| "nonneg_val (StrVal w) = False"

text \<open>The invariant of the time setpoint: every value written to \<open>time_sp\<close> is an
  integer that is not negative.\<close>

definition time_sp_ok :: "event list \<Rightarrow> bool" where
  "time_sp_ok es = list_all nonneg_val (writes_to ''time_sp'' es)"

fun neg_val :: "val \<Rightarrow> val" where
  "neg_val (IntVal n) = IntVal (- n)"
| "neg_val (StrVal w) = StrVal w"

text \<open>
  The claim about the speed range speaks of the largest speed in degrees per second:
  the cached \<open>max_speed\<close> (counts per second) converted with the cached
  \<open>count_per_rot\<close> (counts per rotation of 360 degrees). This definition follows those
  words; it is not the property \<open>nominal_speed\<close> of the source.
\<close>

definition max_speed_deg_s :: "motor \<Rightarrow> rat" where
  "max_speed_deg_s m = of_int (max_speed m) * 360 / of_int (count_per_rot m)"

subsection \<open>A caller\<close>

text \<open>
  A program that holds a motor calls its public methods one after another. A call that
  raises leaves the program free to go on (it may catch the exception); a call that is
  still in its loop when the feed of \<open>state\<close> ends is the last one.
\<close>

datatype call =
    Run rat
  | RunForRotations rat rat string bool
  | RunForTime rat rat string bool
  | RunUnregulated int
  | Stop string

fun call_motor :: "motor \<Rightarrow> call \<Rightarrow> io \<Rightarrow> unit result option \<times> io" where
  "call_motor m (Run v) s = map_prod Some id (run m v s)"
| "call_motor m (RunForRotations v r a w) s = run_for_rotations m v r a w s"
| "call_motor m (RunForTime v t a w) s = map_prod Some id (run_for_time m v t a w s)"
| "call_motor m (RunUnregulated d) s = map_prod Some id (run_unregulated m d s)"
| "call_motor m (Stop a) s = map_prod Some id (stop m a s)"

fun calls :: "motor \<Rightarrow> call list \<Rightarrow> io \<Rightarrow> io" where
  "calls m [] s = s"
| "calls m (c # cs) s =
     (case call_motor m c s of (None, s') \<Rightarrow> s' | (Some r, s') \<Rightarrow> calls m cs s')"

subsection \<open>A device to compute with\<close>

text \<open>An EV3 large motor on output port A, as the kernel reports it.\<close>

definition ev3_fs :: sysfs where
  "ev3_fs =
     \<lparr>find_node = (\<lambda>subsystem p d.
        if subsystem = ''tacho-motor'' \<and> p = ''ev3-ports:outA'' \<and> d = ''lego-ev3-l-motor''
        then Some ''/sys/class/tacho-motor/motor0'' else None),
      read_attr = (\<lambda>node a.
        if a = ''commands'' then ''run-forever run-to-rel-pos run-timed run-direct stop reset''
        else if a = ''driver_name'' then ''lego-ev3-l-motor''
        else if a = ''stop_actions'' then ''coast brake hold''
        else []),
      read_int_attr = (\<lambda>node a.
        if a = ''count_per_rot'' then 360 else if a = ''max_speed'' then 1050 else 0)\<rparr>"

definition motor_A :: motor where
  "motor_A =
     \<lparr>commands = [''run-forever'', ''run-to-rel-pos'', ''run-timed'', ''run-direct'', ''stop'', ''reset''],
      count_per_rot = 360,
      driver_name = ''lego-ev3-l-motor'',
      max_speed = 1050,
      stop_actions = [''coast'', ''brake'', ''hold''],
      port = ''ev3-ports:outA''\<rparr>"

definition io0 :: io where
  "io0 = \<lparr>trace = [], state_feed = []\<rparr>"

section \<open>Properties\<close>

subsection \<open>Truncation\<close>

lemma floor_rat_numeral_div: "\<lfloor>(numeral a / numeral b :: rat)\<rfloor> = numeral a div numeral b"
  using floor_divide_of_int_eq [of "numeral a" "numeral b", where ?'a = rat] by simp

lemma floor_rat_one_div: "\<lfloor>(1 / numeral b :: rat)\<rfloor> = 1 div numeral b"
  using floor_divide_of_int_eq [of 1 "numeral b", where ?'a = rat] by simp

lemmas py_int_eval = py_int_def floor_rat_numeral_div floor_rat_one_div

lemma py_int_le: "q \<le> of_int M \<Longrightarrow> py_int q \<le> M"
  unfolding py_int_def by (auto simp: floor_le_iff le_floor_iff) linarith+

lemma py_int_ge: "of_int M \<le> q \<Longrightarrow> M \<le> py_int q"
  unfolding py_int_def by (auto simp: floor_le_iff le_floor_iff) linarith+

lemma py_int_uminus: "py_int (- q) = - py_int q"
  unfolding py_int_def by (cases "q = 0") auto

lemma py_int_nonneg: "0 \<le> q \<Longrightarrow> 0 \<le> py_int q"
  unfolding py_int_def by auto

lemma native_speed_uminus: "native_speed m (- v) = - native_speed m v"
  unfolding native_speed_def by (simp add: py_int_uminus [symmetric])

subsection \<open>Traces\<close>

lemma writes_to_append: "writes_to a (es @ fs) = writes_to a es @ writes_to a fs"
  by (induction a es rule: writes_to.induct) auto

lemma writes_to_reads: "writes_to a (replicate n (ReadAttr b)) = []"
  by (induction n) auto

lemma wait_while_running_trace:
  "\<exists>n. trace (snd (wait_while_running w tr fd)) = tr @ replicate n (ReadAttr ''state'')"
proof (induction w tr fd rule: wait_while_running.induct)
  case (1 tr fd)
  have "tr = tr @ replicate 0 (ReadAttr ''state'')" by simp
  then show ?case by (metis wait_while_running.simps(1) snd_conv io.select_convs(1))
next
  case (2 tr)
  have "tr = tr @ replicate 0 (ReadAttr ''state'')" by simp
  then show ?case by (metis wait_while_running.simps(2) snd_conv io.select_convs(1))
next
  case (3 tr r fd)
  then obtain n where
    "trace (snd (wait_while_running (\<not> (''running'' \<notin> set (py_split r) \<or> ''holding'' \<in> set (py_split r)))
        (tr @ [ReadAttr ''state'']) fd)) = (tr @ [ReadAttr ''state'']) @ replicate n (ReadAttr ''state'')"
    by (auto simp: Let_def)
  then have "trace (snd (wait_while_running True tr (r # fd))) = tr @ replicate (Suc n) (ReadAttr ''state'')"
    by (simp add: Let_def)
  then show ?case by blast
qed

lemma wait_while_running_outcome:
  "fst (wait_while_running w tr fd) = fst (wait_while_running w tr' fd)"
proof (induction fd arbitrary: w tr tr')
  case Nil
  then show ?case by (cases w) simp_all
next
  case (Cons r fd)
  then show ?case by (cases w) (simp_all add: Let_def)
qed

lemma wait_while_running_writes:
  "writes_to a (new_events s (snd (wait_while_running w (trace s @ es) fd))) = writes_to a es"
proof -
  obtain n where "trace (snd (wait_while_running w (trace s @ es) fd)) =
      (trace s @ es) @ replicate n (ReadAttr ''state'')"
    using wait_while_running_trace by blast
  then show ?thesis by (simp add: new_events_def writes_to_append writes_to_reads)
qed

lemma run_for_rotations_cases:
  "run_for_rotations m v r a w s =
     (if native_speed m v < - max_speed m \<or> native_speed m v > max_speed m
      then (Some (Inl (ValueError ''speed is out of range'')), s)
      else if a \<notin> set (stop_actions m)
      then (Some (Inl (ValueError ''Invalid stop action'')),
            record_events [WriteAttr ''speed_sp'' (IntVal (native_speed m v))] s)
      else wait_while_running w
             (trace s @
              [WriteAttr ''speed_sp'' (IntVal (native_speed m v)),
               WriteAttr ''stop_action'' (StrVal a),
               WriteAttr ''position_sp''
                 (IntVal (py_int (of_int (count_per_rot m) * (if v < 0 then r * (- 1) else r)))),
               WriteAttr ''command'' (StrVal ''run-to-rel-pos'')])
             (state_feed s))"
  by (simp add: run_for_rotations_def set_speed_sp_def set_stop_action_def set_position_sp_def
      and_then_def attr_write_def record_events_def Let_def)

lemma new_events_self: "new_events s s = []"
  by (simp add: new_events_def)

lemma new_events_record: "new_events s (record_events es s) = es"
  by (simp add: new_events_def record_events_def)

subsection \<open>The speed setpoint\<close>

text \<open>
  Claim C1. A speed between \<open>- max_speed_deg_s\<close> and \<open>max_speed_deg_s\<close> degrees per
  second is converted by \<open>_set_speed_sp\<close> to a native setpoint between
  \<open>- max_speed\<close> and \<open>max_speed\<close>, so the range check passes and the converted value
  is written to \<open>speed_sp\<close>. The motor reports a positive \<open>count_per_rot\<close>:
  the conversion to degrees per second divides by it.
\<close>

theorem speed_in_range_is_written:
  assumes cpr: "0 < count_per_rot m"
      and lo: "- max_speed_deg_s m \<le> speed"
      and hi: "speed \<le> max_speed_deg_s m"
    shows "- max_speed m \<le> native_speed m speed \<and> native_speed m speed \<le> max_speed m \<and>
           set_speed_sp m speed s =
             (Inr (), record_events [WriteAttr ''speed_sp'' (IntVal (native_speed m speed))] s)"
proof -
  let ?c = "of_int (count_per_rot m) :: rat"
  let ?M = "of_int (max_speed m) :: rat"
  have c: "0 < ?c" using cpr by simp
  have "speed * ?c \<le> ?M * 360"
    using hi c by (simp add: max_speed_deg_s_def pos_le_divide_eq)
  then have up: "speed * ?c / 360 \<le> ?M" by simp
  have "- (?M * 360) \<le> speed * ?c"
    using lo c by (simp add: max_speed_deg_s_def field_simps)
  then have down: "of_int (- max_speed m) \<le> speed * ?c / 360" by simp
  have a: "native_speed m speed \<le> max_speed m"
    unfolding native_speed_def using up by (rule py_int_le)
  have b: "- max_speed m \<le> native_speed m speed"
    unfolding native_speed_def using down by (rule py_int_ge)
  show ?thesis using a b by (simp add: set_speed_sp_def attr_write_def Let_def)
qed

theorem speed_in_range_is_written_witness:
  "0 < count_per_rot motor_A \<and> - max_speed_deg_s motor_A \<le> - 1050 \<and> - 1050 \<le> max_speed_deg_s motor_A \<and>
   native_speed motor_A (- 1050) = - 1050 \<and>
   set_speed_sp motor_A (- 1050) io0 =
     (Inr (), \<lparr>trace = [WriteAttr ''speed_sp'' (IntVal (- 1050))], state_feed = []\<rparr>)"
proof -
  have h1: "0 < count_per_rot motor_A" by (simp add: motor_A_def)
  have h2: "- max_speed_deg_s motor_A \<le> - 1050" by (simp add: motor_A_def max_speed_deg_s_def)
  have h3: "- 1050 \<le> max_speed_deg_s motor_A" by (simp add: motor_A_def max_speed_deg_s_def)
  have n: "native_speed motor_A (- 1050) = - 1050"
    by (simp add: native_speed_def motor_A_def py_int_def)
  from speed_in_range_is_written [OF h1 h2 h3, of io0] h1 h2 h3 n show ?thesis
    by (simp add: record_events_def io0_def)
qed

subsection \<open>The position setpoint of run_for_rotations\<close>

text \<open>
  Claim C2. For a speed magnitude \<open>v > 0\<close> and any rotations \<open>r\<close>,
  \<open>run_for_rotations\<close> with speed \<open>- v\<close> ends as it does with speed \<open>v\<close>
  (the same exception, or none), and the position setpoints the two calls write are the
  negation of one another; when the validations pass they are
  \<open>int(count_per_rot * r)\<close> for \<open>v\<close> and its negation for \<open>- v\<close>.
\<close>

theorem run_for_rotations_negative_speed:
  assumes "0 < v"
  shows "fst (run_for_rotations m (- v) r a w s) = fst (run_for_rotations m v r a w s) \<and>
         writes_to ''position_sp'' (new_events s (snd (run_for_rotations m (- v) r a w s))) =
           map neg_val (writes_to ''position_sp'' (new_events s (snd (run_for_rotations m v r a w s)))) \<and>
         (\<not> (native_speed m v < - max_speed m \<or> native_speed m v > max_speed m) \<and>
          a \<in> set (stop_actions m) \<longrightarrow>
            writes_to ''position_sp'' (new_events s (snd (run_for_rotations m v r a w s))) =
              [IntVal (py_int (of_int (count_per_rot m) * r))] \<and>
            writes_to ''position_sp'' (new_events s (snd (run_for_rotations m (- v) r a w s))) =
              [IntVal (- py_int (of_int (count_per_rot m) * r))])"
proof -
  let ?bad = "native_speed m v < - max_speed m \<or> native_speed m v > max_speed m"
  have bad_iff: "(native_speed m (- v) < - max_speed m \<or> native_speed m (- v) > max_speed m) = ?bad"
    by (auto simp: native_speed_uminus)
  have neg: "py_int (of_int (count_per_rot m) * (r * (- 1))) = - py_int (of_int (count_per_rot m) * r)"
    using py_int_uminus [of "of_int (count_per_rot m) * r"] by simp
  show ?thesis
  proof (cases ?bad)
    case True
    then show ?thesis
      using bad_iff by (simp add: run_for_rotations_cases new_events_self)
  next
    case ok: False
    show ?thesis
    proof (cases "a \<in> set (stop_actions m)")
      case False
      then show ?thesis
        using ok bad_iff by (simp add: run_for_rotations_cases new_events_record)
    next
      case True
      have pos: "run_for_rotations m v r a w s = wait_while_running w
             (trace s @
              [WriteAttr ''speed_sp'' (IntVal (native_speed m v)),
               WriteAttr ''stop_action'' (StrVal a),
               WriteAttr ''position_sp'' (IntVal (py_int (of_int (count_per_rot m) * r))),
               WriteAttr ''command'' (StrVal ''run-to-rel-pos'')])
             (state_feed s)"
        using ok True assms by (simp add: run_for_rotations_cases)
      have "- v < 0" using assms by simp
      then have negr: "run_for_rotations m (- v) r a w s = wait_while_running w
             (trace s @
              [WriteAttr ''speed_sp'' (IntVal (native_speed m (- v))),
               WriteAttr ''stop_action'' (StrVal a),
               WriteAttr ''position_sp'' (IntVal (- py_int (of_int (count_per_rot m) * r))),
               WriteAttr ''command'' (StrVal ''run-to-rel-pos'')])
             (state_feed s)"
        using ok True bad_iff neg by (simp add: run_for_rotations_cases)
      have out: "fst (run_for_rotations m (- v) r a w s) = fst (run_for_rotations m v r a w s)"
        unfolding pos negr by (rule wait_while_running_outcome)
      have wp: "writes_to ''position_sp'' (new_events s (snd (run_for_rotations m v r a w s))) =
          [IntVal (py_int (of_int (count_per_rot m) * r))]"
        unfolding pos by (simp add: wait_while_running_writes)
      have wn: "writes_to ''position_sp'' (new_events s (snd (run_for_rotations m (- v) r a w s))) =
          [IntVal (- py_int (of_int (count_per_rot m) * r))]"
        unfolding negr by (simp add: wait_while_running_writes)
      show ?thesis using out wp wn by simp
    qed
  qed
qed

theorem run_for_rotations_negative_speed_witness:
  "(0::rat) < 90 \<and>
   run_for_rotations motor_A 90 (5 / 2) ''hold'' True (io0\<lparr>state_feed := [''running'', ''running holding'']\<rparr>) =
     (Some (Inr ()),
      \<lparr>trace = [WriteAttr ''speed_sp'' (IntVal 90), WriteAttr ''stop_action'' (StrVal ''hold''),
                WriteAttr ''position_sp'' (IntVal 900), WriteAttr ''command'' (StrVal ''run-to-rel-pos''),
                ReadAttr ''state'', ReadAttr ''state''],
       state_feed = []\<rparr>) \<and>
   fst (run_for_rotations motor_A (- 90) (5 / 2) ''hold'' True (io0\<lparr>state_feed := [''running'', ''running holding'']\<rparr>)) =
     Some (Inr ()) \<and>
   writes_to ''position_sp''
     (new_events (io0\<lparr>state_feed := [''running'', ''running holding'']\<rparr>)
       (snd (run_for_rotations motor_A (- 90) (5 / 2) ''hold'' True (io0\<lparr>state_feed := [''running'', ''running holding'']\<rparr>)))) =
     [IntVal (- 900)]"
proof -
  let ?s = "io0\<lparr>state_feed := [''running'', ''running holding'']\<rparr>"
  have pos: "(0::rat) < 90" by simp
  have run: "run_for_rotations motor_A 90 (5 / 2) ''hold'' True ?s =
     (Some (Inr ()),
      \<lparr>trace = [WriteAttr ''speed_sp'' (IntVal 90), WriteAttr ''stop_action'' (StrVal ''hold''),
                WriteAttr ''position_sp'' (IntVal 900), WriteAttr ''command'' (StrVal ''run-to-rel-pos''),
                ReadAttr ''state'', ReadAttr ''state''],
       state_feed = []\<rparr>)"
    by (simp add: run_for_rotations_def set_speed_sp_def set_stop_action_def set_position_sp_def
      and_then_def attr_write_def record_events_def Let_def native_speed_def motor_A_def io0_def py_int_eval)
  from run_for_rotations_negative_speed [OF pos, of motor_A "5 / 2" "''hold''" True ?s] run pos
  show ?thesis by (simp add: new_events_def io0_def)
qed

subsection \<open>The setters validate before they write\<close>

text \<open>
  Claim C3 says that every setter, the one of the position among them, checks the range of
  its argument before it writes. \<open>_set_position_sp\<close> has no check: no range of the
  position is in the source, and whatever \<open>int\<close> gives is written. With 360 counts
  per rotation, ten thousand million rotations either way are written as they are.
\<close>

theorem position_setter_has_no_check:
  "set_position_sp motor_A 10000000000 io0 =
     (Inr (), \<lparr>trace = [WriteAttr ''position_sp'' (IntVal 3600000000000)], state_feed = []\<rparr>) \<and>
   set_position_sp motor_A (- 10000000000) io0 =
     (Inr (), \<lparr>trace = [WriteAttr ''position_sp'' (IntVal (- 3600000000000))], state_feed = []\<rparr>)"
  by (simp add: set_position_sp_def attr_write_def record_events_def motor_A_def io0_def py_int_def)

text \<open>
  Claim C3, amended. The setters of the speed, the time, the duty cycle and the stop action
  check their argument first: out of range, they raise \<open>ValueError\<close> and nothing is
  written (the record of the attribute files is the one before the call); in range, they
  write the one value. The setter of the position never raises and always writes
  \<open>int(count_per_rot * rotations)\<close>.
\<close>

theorem setters_validate_before_writing:
  "(native_speed m v < - max_speed m \<or> max_speed m < native_speed m v \<longrightarrow>
      set_speed_sp m v s = (Inl (ValueError ''speed is out of range''), s)) \<and>
   (- max_speed m \<le> native_speed m v \<and> native_speed m v \<le> max_speed m \<longrightarrow>
      set_speed_sp m v s =
        (Inr (), record_events [WriteAttr ''speed_sp'' (IntVal (native_speed m v))] s)) \<and>
   (t < 0 \<longrightarrow> set_time_sp m t s = (Inl (ValueError ''time is out of range''), s)) \<and>
   (0 \<le> t \<longrightarrow>
      set_time_sp m t s = (Inr (), record_events [WriteAttr ''time_sp'' (IntVal t)] s)) \<and>
   (d < - 100 \<or> 100 < d \<longrightarrow>
      set_duty_cycle_sp m d s = (Inl (ValueError ''duty cycle is out of range''), s)) \<and>
   (- 100 \<le> d \<and> d \<le> 100 \<longrightarrow>
      set_duty_cycle_sp m d s =
        (Inr (), record_events [WriteAttr ''duty_cycle_sp'' (IntVal d)] s)) \<and>
   (a \<notin> set (stop_actions m) \<longrightarrow>
      set_stop_action m a s = (Inl (ValueError ''Invalid stop action''), s)) \<and>
   (a \<in> set (stop_actions m) \<longrightarrow>
      set_stop_action m a s =
        (Inr (), record_events [WriteAttr ''stop_action'' (StrVal a)] s)) \<and>
   set_position_sp m r s =
     (Inr (), record_events
        [WriteAttr ''position_sp'' (IntVal (py_int (of_int (count_per_rot m) * r)))] s)"
  by (auto simp: set_speed_sp_def set_time_sp_def set_duty_cycle_sp_def set_stop_action_def
      set_position_sp_def attr_write_def Let_def)

theorem setters_validate_before_writing_witness:
  "set_speed_sp motor_A 1051 io0 = (Inl (ValueError ''speed is out of range''), io0) \<and>
   set_speed_sp motor_A (- 2101 / 2) io0 =
     (Inr (), \<lparr>trace = [WriteAttr ''speed_sp'' (IntVal (- 1050))], state_feed = []\<rparr>) \<and>
   set_time_sp motor_A (- 1) io0 = (Inl (ValueError ''time is out of range''), io0) \<and>
   set_time_sp motor_A 0 io0 =
     (Inr (), \<lparr>trace = [WriteAttr ''time_sp'' (IntVal 0)], state_feed = []\<rparr>) \<and>
   set_duty_cycle_sp motor_A 101 io0 = (Inl (ValueError ''duty cycle is out of range''), io0) \<and>
   set_duty_cycle_sp motor_A (- 100) io0 =
     (Inr (), \<lparr>trace = [WriteAttr ''duty_cycle_sp'' (IntVal (- 100))], state_feed = []\<rparr>) \<and>
   set_stop_action motor_A ''park'' io0 = (Inl (ValueError ''Invalid stop action''), io0) \<and>
   set_stop_action motor_A ''brake'' io0 =
     (Inr (), \<lparr>trace = [WriteAttr ''stop_action'' (StrVal ''brake'')], state_feed = []\<rparr>) \<and>
   set_position_sp motor_A (- 5 / 2) io0 =
     (Inr (), \<lparr>trace = [WriteAttr ''position_sp'' (IntVal (- 900))], state_feed = []\<rparr>)"
proof -
  have n1: "native_speed motor_A 1051 = 1051"
    by (simp add: native_speed_def motor_A_def py_int_def)
  have n2: "native_speed motor_A (- 2101 / 2) = - 1050"
    by (simp add: native_speed_def motor_A_def py_int_def floor_divide_of_int_eq [of 2101 2, where ?'a = rat, simplified])
  have p: "py_int (of_int (count_per_rot motor_A) * (- 5 / 2)) = - 900"
    by (simp add: motor_A_def py_int_def)
  have ms: "max_speed motor_A = 1050" "stop_actions motor_A = [''coast'', ''brake'', ''hold'']"
    by (simp_all add: motor_A_def)
  show ?thesis
    using setters_validate_before_writing [of motor_A 1051 io0 "- 1" 101 "''park''" "- 5 / 2"]
      setters_validate_before_writing [of motor_A "- 2101 / 2" io0 0 "- 100" "''brake''" "- 5 / 2"]
      n1 n2 p ms
    by (simp add: record_events_def io0_def)
qed

subsection \<open>run_unregulated\<close>

text \<open>
  Claim C4. For a duty cycle below -100 or above 100, \<open>run_unregulated\<close> raises
  \<open>ValueError\<close> and writes neither the setpoint nor a command; for a duty cycle from
  -100 to 100 it writes the setpoint, then the command \<open>run-direct\<close>, and does not
  raise.
\<close>

theorem run_unregulated_range:
  "(d < - 100 \<or> 100 < d \<longrightarrow>
      run_unregulated m d s = (Inl (ValueError ''duty cycle is out of range''), s)) \<and>
   (- 100 \<le> d \<and> d \<le> 100 \<longrightarrow>
      run_unregulated m d s =
        (Inr (), record_events [WriteAttr ''duty_cycle_sp'' (IntVal d),
                                WriteAttr ''command'' (StrVal ''run-direct'')] s))"
  by (auto simp: run_unregulated_def set_duty_cycle_sp_def and_then_def attr_write_def
      record_events_def)

theorem run_unregulated_range_witness:
  "run_unregulated motor_A 101 io0 = (Inl (ValueError ''duty cycle is out of range''), io0) \<and>
   run_unregulated motor_A (- 101) io0 = (Inl (ValueError ''duty cycle is out of range''), io0) \<and>
   run_unregulated motor_A 100 io0 =
     (Inr (), \<lparr>trace = [WriteAttr ''duty_cycle_sp'' (IntVal 100),
                         WriteAttr ''command'' (StrVal ''run-direct'')], state_feed = []\<rparr>) \<and>
   run_unregulated motor_A (- 100) io0 =
     (Inr (), \<lparr>trace = [WriteAttr ''duty_cycle_sp'' (IntVal (- 100)),
                         WriteAttr ''command'' (StrVal ''run-direct'')], state_feed = []\<rparr>)"
  using run_unregulated_range [of 101 motor_A io0] run_unregulated_range [of "- 101" motor_A io0]
    run_unregulated_range [of 100 motor_A io0] run_unregulated_range [of "- 100" motor_A io0]
  by (simp add: record_events_def io0_def)

subsection \<open>run_for_time\<close>

lemma run_for_time_cases:
  "run_for_time m v t a w s =
     (if native_speed m v < - max_speed m \<or> native_speed m v > max_speed m
      then (Inl (ValueError ''speed is out of range''), s)
      else if py_int (t * 1000) < 0
      then (Inl (ValueError ''time is out of range''),
            record_events [WriteAttr ''speed_sp'' (IntVal (native_speed m v))] s)
      else if a \<notin> set (stop_actions m)
      then (Inl (ValueError ''Invalid stop action''),
            record_events [WriteAttr ''speed_sp'' (IntVal (native_speed m v)),
                           WriteAttr ''time_sp'' (IntVal (py_int (t * 1000)))] s)
      else (Inr (),
            record_events
              ([WriteAttr ''speed_sp'' (IntVal (native_speed m v)),
                WriteAttr ''time_sp'' (IntVal (py_int (t * 1000))),
                WriteAttr ''stop_action'' (StrVal a)] @
               (if w then [WriteAttr ''command'' (StrVal ''run-forever''), Sleep t,
                           WriteAttr ''command'' (StrVal ''stop'')]
                else [WriteAttr ''command'' (StrVal ''run-timed'')])) s))"
  by (simp add: run_for_time_def set_speed_sp_def set_time_sp_def set_stop_action_def
      and_then_def attr_write_def record_events_def Let_def)

text \<open>
  Claim C7. For a speed in range, a duration \<open>time\<close> that is not negative and a
  supported stop action (so the three validations pass), \<open>run_for_time\<close> first
  writes the speed, the time as \<open>int(time * 1000)\<close> milliseconds and the stop action;
  then with \<open>wait\<close> it writes \<open>run-forever\<close>, sleeps for \<open>time\<close> and writes
  \<open>stop\<close>, and without \<open>wait\<close> it writes the one command \<open>run-timed\<close>.
\<close>

theorem run_for_time_sequence:
  assumes "- max_speed m \<le> native_speed m v" and "native_speed m v \<le> max_speed m"
      and "0 \<le> t" and "a \<in> set (stop_actions m)"
    shows "run_for_time m v t a True s =
             (Inr (), record_events
                [WriteAttr ''speed_sp'' (IntVal (native_speed m v)),
                 WriteAttr ''time_sp'' (IntVal (py_int (t * 1000))),
                 WriteAttr ''stop_action'' (StrVal a),
                 WriteAttr ''command'' (StrVal ''run-forever''),
                 Sleep t,
                 WriteAttr ''command'' (StrVal ''stop'')] s) \<and>
           run_for_time m v t a False s =
             (Inr (), record_events
                [WriteAttr ''speed_sp'' (IntVal (native_speed m v)),
                 WriteAttr ''time_sp'' (IntVal (py_int (t * 1000))),
                 WriteAttr ''stop_action'' (StrVal a),
                 WriteAttr ''command'' (StrVal ''run-timed'')] s)"
proof -
  have "0 \<le> py_int (t * 1000)"
    using assms(3) by (simp add: py_int_nonneg)
  then show ?thesis
    using assms by (simp add: run_for_time_cases)
qed

theorem run_for_time_sequence_witness:
  "run_for_time motor_A (- 720) (5 / 2) ''coast'' True io0 =
     (Inr (), \<lparr>trace =
        [WriteAttr ''speed_sp'' (IntVal (- 720)),
         WriteAttr ''time_sp'' (IntVal 2500),
         WriteAttr ''stop_action'' (StrVal ''coast''),
         WriteAttr ''command'' (StrVal ''run-forever''),
         Sleep (5 / 2),
         WriteAttr ''command'' (StrVal ''stop'')], state_feed = []\<rparr>) \<and>
   run_for_time motor_A (- 720) (5 / 2) ''coast'' False io0 =
     (Inr (), \<lparr>trace =
        [WriteAttr ''speed_sp'' (IntVal (- 720)),
         WriteAttr ''time_sp'' (IntVal 2500),
         WriteAttr ''stop_action'' (StrVal ''coast''),
         WriteAttr ''command'' (StrVal ''run-timed'')], state_feed = []\<rparr>)"
proof -
  have n: "native_speed motor_A (- 720) = - 720"
    by (simp add: native_speed_def motor_A_def py_int_def)
  have t: "py_int (5 / 2 * 1000) = 2500"
    by (simp add: py_int_def)
  have h1: "- max_speed motor_A \<le> native_speed motor_A (- 720)"
    by (simp add: native_speed_def motor_A_def py_int_def)
  have h2: "native_speed motor_A (- 720) \<le> max_speed motor_A"
    by (simp add: native_speed_def motor_A_def py_int_def)
  have h3: "(0::rat) \<le> 5 / 2"
    by simp
  have h4: "''coast'' \<in> set (stop_actions motor_A)"
    by (simp add: motor_A_def)
  show ?thesis
    using run_for_time_sequence [OF h1 h2 h3 h4, of io0] n t
    by (simp add: record_events_def io0_def)
qed

subsection \<open>The stop action\<close>

text \<open>
  Claim C5. For a stop action that is not among the supported ones the motor cached when
  it was constructed, \<open>stop\<close>, \<open>run_for_rotations\<close> and \<open>run_for_time\<close> raise
  \<open>ValueError\<close> and do not write the attribute \<open>stop_action\<close>. A supported stop action
  is written without an exception by \<open>_set_stop_action\<close> and by \<open>stop\<close>, and by the
  two other operations once the speed (and, for \<open>run_for_time\<close>, the time) is accepted.
\<close>

theorem unsupported_stop_action_raises:
  "(a \<notin> set (stop_actions m) \<longrightarrow>
      stop m a s = (Inl (ValueError ''Invalid stop action''), s) \<and>
      fst (run_for_rotations m v r a w s) \<in>
        {Some (Inl (ValueError ''speed is out of range'')),
         Some (Inl (ValueError ''Invalid stop action''))} \<and>
      writes_to ''stop_action'' (new_events s (snd (run_for_rotations m v r a w s))) = [] \<and>
      fst (run_for_time m v t a w s) \<in>
        {Inl (ValueError ''speed is out of range''),
         Inl (ValueError ''time is out of range''),
         Inl (ValueError ''Invalid stop action'')} \<and>
      writes_to ''stop_action'' (new_events s (snd (run_for_time m v t a w s))) = []) \<and>
   (a \<in> set (stop_actions m) \<longrightarrow>
      set_stop_action m a s = (Inr (), record_events [WriteAttr ''stop_action'' (StrVal a)] s) \<and>
      stop m a s =
        (Inr (), record_events [WriteAttr ''stop_action'' (StrVal a),
                                WriteAttr ''command'' (StrVal ''stop'')] s) \<and>
      (- max_speed m \<le> native_speed m v \<and> native_speed m v \<le> max_speed m \<longrightarrow>
         writes_to ''stop_action'' (new_events s (snd (run_for_rotations m v r a w s))) =
           [StrVal a] \<and>
         (0 \<le> t \<longrightarrow>
            writes_to ''stop_action'' (new_events s (snd (run_for_time m v t a w s))) =
              [StrVal a])))"
proof -
  have stop_bad: "stop m a s = (Inl (ValueError ''Invalid stop action''), s)"
    if "a \<notin> set (stop_actions m)"
    using that by (simp add: stop_def set_stop_action_def and_then_def)
  have rot_bad: "fst (run_for_rotations m v r a w s) \<in>
        {Some (Inl (ValueError ''speed is out of range'')),
         Some (Inl (ValueError ''Invalid stop action''))} \<and>
      writes_to ''stop_action'' (new_events s (snd (run_for_rotations m v r a w s))) = []"
    if "a \<notin> set (stop_actions m)"
    using that by (simp add: run_for_rotations_cases new_events_self new_events_record)
  have time_bad: "fst (run_for_time m v t a w s) \<in>
        {Inl (ValueError ''speed is out of range''),
         Inl (ValueError ''time is out of range''),
         Inl (ValueError ''Invalid stop action'')} \<and>
      writes_to ''stop_action'' (new_events s (snd (run_for_time m v t a w s))) = []"
    if "a \<notin> set (stop_actions m)"
    using that by (simp add: run_for_time_cases new_events_self new_events_record)
  have set_ok: "set_stop_action m a s =
      (Inr (), record_events [WriteAttr ''stop_action'' (StrVal a)] s)"
    if "a \<in> set (stop_actions m)"
    using that by (simp add: set_stop_action_def attr_write_def)
  have stop_ok: "stop m a s =
        (Inr (), record_events [WriteAttr ''stop_action'' (StrVal a),
                                WriteAttr ''command'' (StrVal ''stop'')] s)"
    if "a \<in> set (stop_actions m)"
    using that by (simp add: stop_def set_stop_action_def and_then_def attr_write_def record_events_def)
  have rot_ok: "writes_to ''stop_action'' (new_events s (snd (run_for_rotations m v r a w s))) =
           [StrVal a]"
    if "a \<in> set (stop_actions m)" "- max_speed m \<le> native_speed m v"
       "native_speed m v \<le> max_speed m"
    using that by (simp add: run_for_rotations_cases wait_while_running_writes)
  have time_ok: "writes_to ''stop_action'' (new_events s (snd (run_for_time m v t a w s))) =
           [StrVal a]"
    if "a \<in> set (stop_actions m)" "- max_speed m \<le> native_speed m v"
       "native_speed m v \<le> max_speed m" "0 \<le> t"
  proof -
    have "0 \<le> py_int (t * 1000)" using that(4) by (simp add: py_int_nonneg)
    then show ?thesis using that by (simp add: run_for_time_cases new_events_record)
  qed
  show ?thesis
    using stop_bad rot_bad time_bad set_ok stop_ok rot_ok time_ok by blast
qed

theorem unsupported_stop_action_raises_witness:
  "''park'' \<notin> set (stop_actions motor_A) \<and>
   stop motor_A ''park'' io0 = (Inl (ValueError ''Invalid stop action''), io0) \<and>
   run_for_rotations motor_A 90 1 ''park'' True io0 =
     (Some (Inl (ValueError ''Invalid stop action'')),
      \<lparr>trace = [WriteAttr ''speed_sp'' (IntVal 90)], state_feed = []\<rparr>) \<and>
   run_for_time motor_A 90 1 ''park'' True io0 =
     (Inl (ValueError ''Invalid stop action''),
      \<lparr>trace = [WriteAttr ''speed_sp'' (IntVal 90), WriteAttr ''time_sp'' (IntVal 1000)],
       state_feed = []\<rparr>) \<and>
   ''brake'' \<in> set (stop_actions motor_A) \<and>
   stop motor_A ''brake'' io0 =
     (Inr (), \<lparr>trace = [WriteAttr ''stop_action'' (StrVal ''brake''),
                         WriteAttr ''command'' (StrVal ''stop'')], state_feed = []\<rparr>)"
proof -
  have sa: "stop_actions motor_A = [''coast'', ''brake'', ''hold'']"
    by (simp add: motor_A_def)
  have n: "native_speed motor_A 90 = 90"
    by (simp add: native_speed_def motor_A_def py_int_def)
  have ms: "max_speed motor_A = 1050" by (simp add: motor_A_def)
  have rot: "run_for_rotations motor_A 90 1 ''park'' True io0 =
     (Some (Inl (ValueError ''Invalid stop action'')),
      \<lparr>trace = [WriteAttr ''speed_sp'' (IntVal 90)], state_feed = []\<rparr>)"
    by (simp add: run_for_rotations_cases n ms sa record_events_def io0_def)
  have tm: "run_for_time motor_A 90 1 ''park'' True io0 =
     (Inl (ValueError ''Invalid stop action''),
      \<lparr>trace = [WriteAttr ''speed_sp'' (IntVal 90), WriteAttr ''time_sp'' (IntVal 1000)],
       state_feed = []\<rparr>)"
    by (simp add: run_for_time_cases n ms sa record_events_def io0_def py_int_def)
  show ?thesis
    using unsupported_stop_action_raises [of "''park''" motor_A io0 90 1 True 1]
      unsupported_stop_action_raises [of "''brake''" motor_A io0 90 1 True 1]
      sa rot tm
    by (simp add: record_events_def io0_def)
qed

subsection \<open>The constructor\<close>

lemma TachoMotor_init_not_found:
  assumes "find_node fs ''tacho-motor'' p' d = None \<or> find_node fs ''tacho-motor'' p' d = Some []"
      and "p' = (if length p = 1 then ''ev3-ports:out'' @ p else p)"
    shows "TachoMotor_init cls fs p d s =
             (Inl (MotorNotFoundError (cls @ '' not found on port '' @ p')),
              record_events [FindNode ''tacho-motor'' p' d] s)"
  using assms by (auto simp: TachoMotor_init_def truthy_def Let_def)

lemma TachoMotor_init_found:
  assumes "find_node fs ''tacho-motor'' p' d = Some n" and "n \<noteq> []"
      and "p' = (if length p = 1 then ''ev3-ports:out'' @ p else p)"
    shows "TachoMotor_init cls fs p d s =
             (Inr \<lparr>commands = py_split (read_attr fs n ''commands''),
                   count_per_rot = read_int_attr fs n ''count_per_rot'',
                   driver_name = read_attr fs n ''driver_name'',
                   max_speed = read_int_attr fs n ''max_speed'',
                   stop_actions = py_split (read_attr fs n ''stop_actions''),
                   port = p'\<rparr>,
              record_events (FindNode ''tacho-motor'' p' d # init_events n) s)"
  using assms by (auto simp: TachoMotor_init_def truthy_def Let_def record_events_def)

lemma ev3_fs_A: "find_node ev3_fs ''tacho-motor'' ''ev3-ports:outA'' ''lego-ev3-l-motor'' =
    Some ''/sys/class/tacho-motor/motor0''"
  by (simp add: ev3_fs_def)

lemma ev3_fs_B: "find_node ev3_fs ''tacho-motor'' ''ev3-ports:outB'' ''lego-ev3-l-motor'' = None"
  by (simp add: ev3_fs_def)

lemma init_A:
  "TachoMotor_init ''LargeMotor'' ev3_fs ''A'' EV3_LARGE io0 =
     (Inr motor_A,
      \<lparr>trace = FindNode ''tacho-motor'' ''ev3-ports:outA'' ''lego-ev3-l-motor'' #
                init_events ''/sys/class/tacho-motor/motor0'',
       state_feed = []\<rparr>)"
  by (simp add: TachoMotor_init_def ev3_fs_def EV3_LARGE_def truthy_def record_events_def
      io0_def motor_A_def Let_def)

text \<open>
  Claim C6. When the lookup of the device node for the port and the driver gives nothing
  (\<open>None\<close>, or an empty path), the constructor raises \<open>MotorNotFoundError\<close> and has
  done nothing but the lookup: no attribute is opened and no command is written. When the
  lookup gives a node, the constructor returns a motor and does not raise.
\<close>

theorem missing_node_raises_not_found:
  "(find_node fs ''tacho-motor'' (if length p = 1 then ''ev3-ports:out'' @ p else p) d = None \<or>
    find_node fs ''tacho-motor'' (if length p = 1 then ''ev3-ports:out'' @ p else p) d = Some []
    \<longrightarrow>
      fst (TachoMotor_init cls fs p d s) =
        Inl (MotorNotFoundError
              (cls @ '' not found on port '' @ (if length p = 1 then ''ev3-ports:out'' @ p else p))) \<and>
      new_events s (snd (TachoMotor_init cls fs p d s)) =
        [FindNode ''tacho-motor'' (if length p = 1 then ''ev3-ports:out'' @ p else p) d]) \<and>
   (find_node fs ''tacho-motor'' (if length p = 1 then ''ev3-ports:out'' @ p else p) d = Some n \<and>
    n \<noteq> [] \<longrightarrow>
      isl (fst (TachoMotor_init cls fs p d s)) = False \<and>
      new_events s (snd (TachoMotor_init cls fs p d s)) =
        FindNode ''tacho-motor'' (if length p = 1 then ''ev3-ports:out'' @ p else p) d #
        init_events n)"
proof -
  let ?p = "if length p = 1 then ''ev3-ports:out'' @ p else p"
  have a: "fst (TachoMotor_init cls fs p d s) =
        Inl (MotorNotFoundError (cls @ '' not found on port '' @ ?p)) \<and>
      new_events s (snd (TachoMotor_init cls fs p d s)) = [FindNode ''tacho-motor'' ?p d]"
    if "find_node fs ''tacho-motor'' ?p d = None \<or> find_node fs ''tacho-motor'' ?p d = Some []"
    using TachoMotor_init_not_found [OF that refl, of cls s]
    by (simp add: new_events_record)
  have b: "isl (fst (TachoMotor_init cls fs p d s)) = False \<and>
      new_events s (snd (TachoMotor_init cls fs p d s)) = FindNode ''tacho-motor'' ?p d # init_events n"
    if "find_node fs ''tacho-motor'' ?p d = Some n" "n \<noteq> []"
    using TachoMotor_init_found [OF that refl, of cls s]
    by (simp add: new_events_record)
  show ?thesis using a b by blast
qed

theorem missing_node_raises_not_found_witness:
  "TachoMotor_init ''LargeMotor'' ev3_fs ''B'' EV3_LARGE io0 =
     (Inl (MotorNotFoundError ''LargeMotor not found on port ev3-ports:outB''),
      \<lparr>trace = [FindNode ''tacho-motor'' ''ev3-ports:outB'' ''lego-ev3-l-motor''], state_feed = []\<rparr>) \<and>
   fst (TachoMotor_init ''LargeMotor'' ev3_fs ''A'' EV3_LARGE io0) = Inr motor_A \<and>
   isl (fst (TachoMotor_init ''LargeMotor'' ev3_fs ''A'' EV3_LARGE io0)) = False"
proof -
  have b: "TachoMotor_init ''LargeMotor'' ev3_fs ''B'' EV3_LARGE io0 =
     (Inl (MotorNotFoundError ''LargeMotor not found on port ev3-ports:outB''),
      \<lparr>trace = [FindNode ''tacho-motor'' ''ev3-ports:outB'' ''lego-ev3-l-motor''], state_feed = []\<rparr>)"
    by (simp add: TachoMotor_init_def EV3_LARGE_def ev3_fs_def truthy_def record_events_def
        io0_def Let_def)
  show ?thesis
    using missing_node_raises_not_found
      [of ev3_fs "''A''" EV3_LARGE "''LargeMotor''" io0 "''/sys/class/tacho-motor/motor0''"]
      ev3_fs_A b init_A
    by (simp add: EV3_LARGE_def)
qed

text \<open>
  Claim C8 says that the constructor writes \<open>reset\<close> and then reads the static
  properties. In the source the write of \<open>reset\<close> is line 53, after every read (lines
  37 to 50): for the large motor on port A no read of a static property comes after the
  first \<open>reset\<close>, which is the last event.
\<close>

theorem reset_is_not_before_the_reads:
  "\<not> occurs_before (WriteAttr ''command'' (StrVal ''reset'')) (ReadAttr ''commands'')
       (trace (snd (TachoMotor_init ''LargeMotor'' ev3_fs ''A'' EV3_LARGE io0))) \<and>
   \<not> occurs_before (WriteAttr ''command'' (StrVal ''reset'')) (ReadAttr ''count_per_rot'')
       (trace (snd (TachoMotor_init ''LargeMotor'' ev3_fs ''A'' EV3_LARGE io0))) \<and>
   \<not> occurs_before (WriteAttr ''command'' (StrVal ''reset'')) (ReadAttr ''max_speed'')
       (trace (snd (TachoMotor_init ''LargeMotor'' ev3_fs ''A'' EV3_LARGE io0))) \<and>
   \<not> occurs_before (WriteAttr ''command'' (StrVal ''reset'')) (ReadAttr ''stop_actions'')
       (trace (snd (TachoMotor_init ''LargeMotor'' ev3_fs ''A'' EV3_LARGE io0))) \<and>
   last (trace (snd (TachoMotor_init ''LargeMotor'' ev3_fs ''A'' EV3_LARGE io0))) =
     WriteAttr ''command'' (StrVal ''reset'')"
  by (simp add: init_A init_events_def)

lemma init_events_order:
  "occurs_before (ReadAttr ''commands'') (WriteAttr ''command'' (StrVal ''reset''))
     (FindNode c p d # init_events n)"
  "occurs_before (ReadAttr ''count_per_rot'') (WriteAttr ''command'' (StrVal ''reset''))
     (FindNode c p d # init_events n)"
  "occurs_before (ReadAttr ''max_speed'') (WriteAttr ''command'' (StrVal ''reset''))
     (FindNode c p d # init_events n)"
  "occurs_before (ReadAttr ''stop_actions'') (WriteAttr ''command'' (StrVal ''reset''))
     (FindNode c p d # init_events n)"
  "last (FindNode c p d # init_events n) = WriteAttr ''command'' (StrVal ''reset'')"
  "writes_to ''command'' (FindNode c p d # init_events n) = [StrVal ''reset'']"
  by (simp_all add: init_events_def)

text \<open>
  Claim C8, amended. Once the device node is found, the constructor opens the attributes,
  reads and caches the static properties (the supported commands, the counts per rotation,
  the driver name, the maximal speed and the supported stop actions), and only then writes
  the command \<open>reset\<close>, the one command it writes and the last thing it does.
\<close>

theorem construction_reads_then_resets:
  assumes "find_node fs ''tacho-motor'' (if length p = 1 then ''ev3-ports:out'' @ p else p) d = Some n"
      and "n \<noteq> []"
    shows "fst (TachoMotor_init cls fs p d s) =
             Inr \<lparr>commands = py_split (read_attr fs n ''commands''),
                  count_per_rot = read_int_attr fs n ''count_per_rot'',
                  driver_name = read_attr fs n ''driver_name'',
                  max_speed = read_int_attr fs n ''max_speed'',
                  stop_actions = py_split (read_attr fs n ''stop_actions''),
                  port = (if length p = 1 then ''ev3-ports:out'' @ p else p)\<rparr> \<and>
           occurs_before (ReadAttr ''commands'') (WriteAttr ''command'' (StrVal ''reset''))
             (new_events s (snd (TachoMotor_init cls fs p d s))) \<and>
           occurs_before (ReadAttr ''count_per_rot'') (WriteAttr ''command'' (StrVal ''reset''))
             (new_events s (snd (TachoMotor_init cls fs p d s))) \<and>
           occurs_before (ReadAttr ''max_speed'') (WriteAttr ''command'' (StrVal ''reset''))
             (new_events s (snd (TachoMotor_init cls fs p d s))) \<and>
           occurs_before (ReadAttr ''stop_actions'') (WriteAttr ''command'' (StrVal ''reset''))
             (new_events s (snd (TachoMotor_init cls fs p d s))) \<and>
           writes_to ''command'' (new_events s (snd (TachoMotor_init cls fs p d s))) =
             [StrVal ''reset''] \<and>
           last (new_events s (snd (TachoMotor_init cls fs p d s))) =
             WriteAttr ''command'' (StrVal ''reset'')"
proof -
  let ?p = "if length p = 1 then ''ev3-ports:out'' @ p else p"
  have new: "new_events s (snd (TachoMotor_init cls fs p d s)) =
      FindNode ''tacho-motor'' ?p d # init_events n"
    using TachoMotor_init_found [OF assms refl, of cls s] by (simp add: new_events_record)
  have res: "fst (TachoMotor_init cls fs p d s) =
             Inr \<lparr>commands = py_split (read_attr fs n ''commands''),
                  count_per_rot = read_int_attr fs n ''count_per_rot'',
                  driver_name = read_attr fs n ''driver_name'',
                  max_speed = read_int_attr fs n ''max_speed'',
                  stop_actions = py_split (read_attr fs n ''stop_actions''),
                  port = ?p\<rparr>"
    using TachoMotor_init_found [OF assms refl, of cls s] by simp
  show ?thesis
    unfolding new using res init_events_order by simp
qed

theorem construction_reads_then_resets_witness:
  "fst (TachoMotor_init ''LargeMotor'' ev3_fs ''A'' EV3_LARGE io0) = Inr motor_A \<and>
   occurs_before (ReadAttr ''max_speed'') (WriteAttr ''command'' (StrVal ''reset''))
     (new_events io0 (snd (TachoMotor_init ''LargeMotor'' ev3_fs ''A'' EV3_LARGE io0))) \<and>
   writes_to ''command'' (new_events io0 (snd (TachoMotor_init ''LargeMotor'' ev3_fs ''A'' EV3_LARGE io0))) =
     [StrVal ''reset'']"
proof -
  have f: "find_node ev3_fs ''tacho-motor''
      (if length ''A'' = 1 then ''ev3-ports:out'' @ ''A'' else ''A'') EV3_LARGE =
      Some ''/sys/class/tacho-motor/motor0''"
    by (simp add: ev3_fs_def EV3_LARGE_def)
  have n: "''/sys/class/tacho-motor/motor0'' \<noteq> []" by simp
  show ?thesis
    using construction_reads_then_resets [OF f n, of "''LargeMotor''" io0] init_A by simp
qed

text \<open>
  Claim C10. A port of exactly one character is expanded to \<open>ev3-ports:out\<close> followed
  by that character before the lookup, and it is the expanded name that the motor stores
  as \<open>port\<close> (and that the error message of a failed lookup names); a port of any other
  length is looked up and stored as it is.
\<close>

theorem one_character_port_is_expanded:
  "(length p = 1 \<longrightarrow>
      take 1 (new_events s (snd (TachoMotor_init cls fs p d s))) =
        [FindNode ''tacho-motor'' (''ev3-ports:out'' @ p) d] \<and>
      (case fst (TachoMotor_init cls fs p d s) of
         Inr m \<Rightarrow> port m = ''ev3-ports:out'' @ p
       | Inl e \<Rightarrow> e = MotorNotFoundError (cls @ '' not found on port '' @ ''ev3-ports:out'' @ p))) \<and>
   (length p \<noteq> 1 \<longrightarrow>
      take 1 (new_events s (snd (TachoMotor_init cls fs p d s))) =
        [FindNode ''tacho-motor'' p d] \<and>
      (case fst (TachoMotor_init cls fs p d s) of
         Inr m \<Rightarrow> port m = p
       | Inl e \<Rightarrow> e = MotorNotFoundError (cls @ '' not found on port '' @ p)))"
  by (auto simp: TachoMotor_init_def Let_def new_events_def record_events_def
      split: option.splits)

theorem one_character_port_is_expanded_witness:
  "length ''A'' = 1 \<and>
   port motor_A = ''ev3-ports:outA'' \<and>
   fst (TachoMotor_init ''LargeMotor'' ev3_fs ''A'' EV3_LARGE io0) = Inr motor_A \<and>
   take 1 (new_events io0 (snd (TachoMotor_init ''LargeMotor'' ev3_fs ''A'' EV3_LARGE io0))) =
     [FindNode ''tacho-motor'' ''ev3-ports:outA'' EV3_LARGE] \<and>
   length ''ev3-ports:outA'' \<noteq> 1 \<and>
   fst (TachoMotor_init ''LargeMotor'' ev3_fs ''ev3-ports:outA'' EV3_LARGE io0) = Inr motor_A \<and>
   take 1 (new_events io0 (snd (TachoMotor_init ''LargeMotor'' ev3_fs ''ev3-ports:outA'' EV3_LARGE io0))) =
     [FindNode ''tacho-motor'' ''ev3-ports:outA'' EV3_LARGE]"
proof -
  have long: "fst (TachoMotor_init ''LargeMotor'' ev3_fs ''ev3-ports:outA'' EV3_LARGE io0) = Inr motor_A"
    by (simp add: TachoMotor_init_def ev3_fs_def EV3_LARGE_def truthy_def record_events_def
      io0_def motor_A_def Let_def)
  show ?thesis
    using one_character_port_is_expanded [of "''A''" io0 "''LargeMotor''" ev3_fs EV3_LARGE]
      one_character_port_is_expanded [of "''ev3-ports:outA''" io0 "''LargeMotor''" ev3_fs EV3_LARGE]
      init_A long
    by (simp add: motor_A_def)
qed

subsection \<open>The time setpoint is never negative\<close>

lemma time_sp_ok_append: "time_sp_ok (es @ fs) = (time_sp_ok es \<and> time_sp_ok fs)"
  by (simp add: time_sp_ok_def writes_to_append)

lemma time_sp_ok_reads: "time_sp_ok (replicate n (ReadAttr b))"
  by (simp add: time_sp_ok_def writes_to_reads)

lemma time_sp_ok_wait:
  "time_sp_ok (trace (snd (wait_while_running w tr fd))) = time_sp_ok tr"
proof -
  obtain n where "trace (snd (wait_while_running w tr fd)) = tr @ replicate n (ReadAttr ''state'')"
    using wait_while_running_trace by blast
  then show ?thesis by (simp add: time_sp_ok_append time_sp_ok_reads)
qed

lemma time_sp_ok_run: "time_sp_ok (trace s) \<Longrightarrow> time_sp_ok (trace (snd (run m v s)))"
  by (simp add: run_def set_speed_sp_def and_then_def attr_write_def record_events_def Let_def
      time_sp_ok_append) (simp add: time_sp_ok_def)

lemma time_sp_ok_run_for_rotations:
  "time_sp_ok (trace s) \<Longrightarrow> time_sp_ok (trace (snd (run_for_rotations m v r a w s)))"
  by (simp add: run_for_rotations_cases time_sp_ok_wait record_events_def time_sp_ok_append)
     (simp add: time_sp_ok_def)

lemma time_sp_ok_run_for_time:
  "time_sp_ok (trace s) \<Longrightarrow> time_sp_ok (trace (snd (run_for_time m v t a w s)))"
  by (simp add: run_for_time_cases record_events_def time_sp_ok_append)
     (simp add: time_sp_ok_def)

lemma time_sp_ok_run_unregulated:
  "time_sp_ok (trace s) \<Longrightarrow> time_sp_ok (trace (snd (run_unregulated m d s)))"
  by (simp add: run_unregulated_def set_duty_cycle_sp_def and_then_def attr_write_def
      record_events_def time_sp_ok_append) (simp add: time_sp_ok_def)

lemma time_sp_ok_stop:
  "time_sp_ok (trace s) \<Longrightarrow> time_sp_ok (trace (snd (stop m a s)))"
  by (simp add: stop_def set_stop_action_def and_then_def attr_write_def
      record_events_def time_sp_ok_append) (simp add: time_sp_ok_def)

lemma time_sp_ok_call:
  "time_sp_ok (trace s) \<Longrightarrow> time_sp_ok (trace (snd (call_motor m c s)))"
  by (cases c) (simp_all add: time_sp_ok_run time_sp_ok_run_for_rotations
      time_sp_ok_run_for_time time_sp_ok_run_unregulated time_sp_ok_stop)

lemma time_sp_ok_calls:
  "time_sp_ok (trace s) \<Longrightarrow> time_sp_ok (trace (calls m cs s))"
proof (induction cs arbitrary: s)
  case Nil
  then show ?case by simp
next
  case (Cons c cs)
  have step: "time_sp_ok (trace (snd (call_motor m c s)))"
    using Cons.prems by (rule time_sp_ok_call)
  show ?case
  proof (cases "call_motor m c s")
    case (Pair r s')
    with step have ok: "time_sp_ok (trace s')" by simp
    show ?thesis
    proof (cases r)
      case None
      with Pair ok show ?thesis by simp
    next
      case (Some u)
      with Pair ok Cons.IH show ?thesis by simp
    qed
  qed
qed

lemma time_sp_ok_init_events: "time_sp_ok (FindNode c q d # init_events n)"
  by (simp add: time_sp_ok_def init_events_def)

lemma time_sp_ok_init:
  assumes "time_sp_ok (trace s)"
  shows "time_sp_ok (trace (snd (TachoMotor_init cls fs p d s)))"
proof -
  let ?p = "if length p = 1 then ''ev3-ports:out'' @ p else p"
  have none: "time_sp_ok [FindNode ''tacho-motor'' ?p d]"
    by (simp add: time_sp_ok_def)
  show ?thesis
  proof (cases "find_node fs ''tacho-motor'' ?p d")
    case None
    then show ?thesis
      using TachoMotor_init_not_found [of fs ?p d p cls s] assms none
      by (simp add: record_events_def time_sp_ok_append)
  next
    case (Some n)
    show ?thesis
    proof (cases "n = []")
      case True
      with Some show ?thesis
        using TachoMotor_init_not_found [of fs ?p d p cls s] assms none
        by (simp add: record_events_def time_sp_ok_append)
    next
      case False
      with Some show ?thesis
        using TachoMotor_init_found [of fs ?p d n p cls s] assms
          time_sp_ok_init_events [of "''tacho-motor''" ?p d n]
        by (simp add: record_events_def time_sp_ok_append)
    qed
  qed
qed

text \<open>
  Claim C9. \<open>_set_time_sp\<close> raises on a negative argument before it writes;
  \<open>run_for_time\<close> writes to \<open>time_sp\<close> at most once, the value
  \<open>int(time * 1000)\<close>, and only when that is not negative; and no operation breaks the
  invariant: if every value written to \<open>time_sp\<close> so far is not negative, so is every
  value after the constructor and after any sequence of calls of the public methods.
\<close>

theorem time_setpoint_is_never_negative:
  "(t < 0 \<longrightarrow> set_time_sp m t s = (Inl (ValueError ''time is out of range''), s)) \<and>
   writes_to ''time_sp'' (new_events s (snd (run_for_time m v x a w s))) \<in>
     {[], [IntVal (py_int (x * 1000))]} \<and>
   (writes_to ''time_sp'' (new_events s (snd (run_for_time m v x a w s))) \<noteq> [] \<longrightarrow>
      0 \<le> py_int (x * 1000)) \<and>
   (time_sp_ok (trace s) \<longrightarrow>
      time_sp_ok (trace (snd (TachoMotor_init cls fs p d s))) \<and>
      time_sp_ok (trace (calls m cs s)))"
proof -
  have a: "set_time_sp m t s = (Inl (ValueError ''time is out of range''), s)" if "t < 0"
    using that by (simp add: set_time_sp_def)
  have b: "writes_to ''time_sp'' (new_events s (snd (run_for_time m v x a w s))) \<in>
     {[], [IntVal (py_int (x * 1000))]}"
    by (simp add: run_for_time_cases new_events_self new_events_record)
  have c: "0 \<le> py_int (x * 1000)"
    if "writes_to ''time_sp'' (new_events s (snd (run_for_time m v x a w s))) \<noteq> []"
    using that by (simp add: run_for_time_cases new_events_self new_events_record split: if_splits)
  show ?thesis
    using a b c time_sp_ok_init time_sp_ok_calls by blast
qed

theorem time_setpoint_is_never_negative_witness:
  "set_time_sp motor_A (- 1) io0 = (Inl (ValueError ''time is out of range''), io0) \<and>
   time_sp_ok (trace io0) \<and>
   trace (calls motor_A
     [RunForTime 90 (3 / 2) ''hold'' False, RunForTime 90 (- 2) ''hold'' True,
      RunForTime 90 (- 1 / 2000) ''hold'' False, Stop ''coast''] io0) =
     [WriteAttr ''speed_sp'' (IntVal 90), WriteAttr ''time_sp'' (IntVal 1500),
      WriteAttr ''stop_action'' (StrVal ''hold''), WriteAttr ''command'' (StrVal ''run-timed''),
      WriteAttr ''speed_sp'' (IntVal 90),
      WriteAttr ''speed_sp'' (IntVal 90), WriteAttr ''time_sp'' (IntVal 0),
      WriteAttr ''stop_action'' (StrVal ''hold''), WriteAttr ''command'' (StrVal ''run-timed''),
      WriteAttr ''stop_action'' (StrVal ''coast''), WriteAttr ''command'' (StrVal ''stop'')] \<and>
   time_sp_ok (trace (calls motor_A
     [RunForTime 90 (3 / 2) ''hold'' False, RunForTime 90 (- 2) ''hold'' True,
      RunForTime 90 (- 1 / 2000) ''hold'' False, Stop ''coast''] io0))"
proof -
  let ?cs = "[RunForTime 90 (3 / 2) ''hold'' False, RunForTime 90 (- 2) ''hold'' True,
      RunForTime 90 (- 1 / 2000) ''hold'' False, Stop ''coast'']"
  have ok0: "time_sp_ok (trace io0)" by (simp add: io0_def time_sp_ok_def)
  have n: "native_speed motor_A 90 = 90"
    by (simp add: native_speed_def motor_A_def py_int_def)
  have ms: "max_speed motor_A = 1050" "stop_actions motor_A = [''coast'', ''brake'', ''hold'']"
    by (simp_all add: motor_A_def)
  have tr: "trace (calls motor_A ?cs io0) =
     [WriteAttr ''speed_sp'' (IntVal 90), WriteAttr ''time_sp'' (IntVal 1500),
      WriteAttr ''stop_action'' (StrVal ''hold''), WriteAttr ''command'' (StrVal ''run-timed''),
      WriteAttr ''speed_sp'' (IntVal 90),
      WriteAttr ''speed_sp'' (IntVal 90), WriteAttr ''time_sp'' (IntVal 0),
      WriteAttr ''stop_action'' (StrVal ''hold''), WriteAttr ''command'' (StrVal ''run-timed''),
      WriteAttr ''stop_action'' (StrVal ''coast''), WriteAttr ''command'' (StrVal ''stop'')]"
    by (simp add: run_for_time_cases n ms stop_def set_stop_action_def and_then_def attr_write_def
        record_events_def io0_def py_int_eval)
  show ?thesis
    using time_setpoint_is_never_negative
      [of "- 1" motor_A io0 90 "3 / 2" "''hold''" False "''LargeMotor''" ev3_fs "''A''" EV3_LARGE ?cs]
      ok0 tr
    by simp
qed

end
